theory Spec2Isabelle
  imports Main "HOL-Library.Stream"
begin

section \<open>MemoryInk: the image metadata note codec\<close>

text \<open>
  A shallow embedding of the note codec of the MemoryInk repository: the server-side
  metadata module (\<^verbatim>\<open>utils/metadata\<close>), the server-side encryption module
  (\<^verbatim>\<open>utils/encryption\<close>), the client-side module \<^verbatim>\<open>frontend/lib/api.ts\<close> (second
  part, the in-browser codec) and the command line extractor.

  JavaScript strings are sequences of UTF-16 code units, modelled as lists of naturals;
  byte arrays are lists of naturals below 256. Chunk type codes, tag names and file
  paths are ASCII in the source and are kept as HOL strings.
\<close>

subsection \<open>Strings, bytes and errors\<close>

type_synonym js_string = "nat list"
type_synonym bytes = "nat list"

definition js :: "string \<Rightarrow> js_string" where
  "js s = map of_char s"

text \<open>
  Every \<^verbatim>\<open>throw\<close> of the source and of the libraries it calls is a value of this
  type. \<open>EmbedFailed\<close> is \<^verbatim>\<open>new Error('Failed to embed note in ...')\<close>,
  \<open>UnsupportedFormat ext\<close> is \<^verbatim>\<open>new Error(`Unsupported image format: ${ext}`)\<close>; the
  others are raised by the file system and the libraries.
\<close>

datatype error =
    IOError
  | PngParseError
  | TextChunkError
  | ExifToolError
  | PiexifError
  | DataUrlError
  | EmbedFailed
  | UnsupportedFormat string

subsection \<open>PNG chunks and the library \<^verbatim>\<open>png-chunk-text\<close>\<close>

record chunk =
  name :: string
  data :: bytes

text \<open>
  \<^verbatim>\<open>pngChunkText.encode(keyword, content)\<close> of the package \<^verbatim>\<open>png-chunk-text\<close>. The
  package is a dependency of the repository; its two functions are modelled here as
  the package implements them. \<open>encode\<close> tests both arguments against
  \<^verbatim>\<open>/^[\x00-\xFF]+$/\<close> (non-empty, every code unit at most 255), refuses a keyword of
  80 or more characters and a NUL in either argument, and returns a \<^verbatim>\<open>tEXt\<close> chunk
  whose data is the keyword, a zero byte and the content.
\<close>

definition latin1 :: "js_string \<Rightarrow> bool" where
  "latin1 s \<longleftrightarrow> s \<noteq> [] \<and> list_all (\<lambda>c. c \<le> 255) s"

definition pngChunkText_encode :: "js_string \<Rightarrow> js_string \<Rightarrow> error + chunk" where
  "pngChunkText_encode keyword content =
     (if \<not> latin1 keyword \<or> \<not> latin1 content then Inl TextChunkError
      else if length keyword \<ge> 80 then Inl TextChunkError
      else if 0 \<in> set keyword then Inl TextChunkError
      else if 0 \<in> set content then Inl TextChunkError
      else Inr \<lparr>name = ''tEXt'', data = keyword @ [0] @ content\<rparr>)"

text \<open>
  \<^verbatim>\<open>pngChunkText.decode(data)\<close>: one pass over the bytes; before the first zero byte the
  bytes are the keyword, after it the text; a second zero byte raises.
\<close>

fun decodeLoop :: "bytes \<Rightarrow> bool \<Rightarrow> js_string \<Rightarrow> js_string \<Rightarrow> error + (js_string \<times> js_string)" where
  "decodeLoop [] naming kw txt = Inr (kw, txt)"
| "decodeLoop (code # rest) naming kw txt =
     (if naming then
        (if code \<noteq> 0 then decodeLoop rest True (kw @ [code]) txt
         else decodeLoop rest False kw txt)
      else
        (if code \<noteq> 0 then decodeLoop rest False kw (txt @ [code])
         else Inl TextChunkError))"

definition pngChunkText_decode :: "bytes \<Rightarrow> error + (js_string \<times> js_string)" where
  "pngChunkText_decode d = decodeLoop d True [] []"

subsection \<open>Array helpers of the JavaScript runtime\<close>

text \<open>
  \<^verbatim>\<open>Array.prototype.findIndex\<close> returns \<open>-1\<close> when no element satisfies the
  predicate. \<^verbatim>\<open>xs.splice(start, 0, ...items)\<close> inserts the items at \<open>start\<close>; a
  negative \<open>start\<close> counts from the end and is clamped at 0, a \<open>start\<close> past the
  end is clamped at the length.
\<close>

fun findIndexFrom :: "('a \<Rightarrow> bool) \<Rightarrow> 'a list \<Rightarrow> int \<Rightarrow> int" where
  "findIndexFrom P [] i = - 1"
| "findIndexFrom P (x # xs) i = (if P x then i else findIndexFrom P xs (i + 1))"

definition findIndex :: "('a \<Rightarrow> bool) \<Rightarrow> 'a list \<Rightarrow> int" where
  "findIndex P xs = findIndexFrom P xs 0"

definition splice0 :: "'a list \<Rightarrow> int \<Rightarrow> 'a list \<Rightarrow> 'a list" where
  "splice0 xs start items =
     (let len = int (length xs);
          actualStart = (if start < 0 then max (len + start) 0 else min start len)
      in take (nat actualStart) xs @ items @ drop (nat actualStart) xs)"

subsection \<open>Files and the chunk stream library\<close>

text \<open>
  The file system is a map from paths to file contents. Reading a missing file raises;
  a write stores the content under the path. The type \<open>'b\<close> of file contents is left
  open: the functions \<^verbatim>\<open>pngChunksExtract\<close> (package \<^verbatim>\<open>png-chunks-extract\<close>) and
  \<^verbatim>\<open>pngChunksEncode\<close> (package \<^verbatim>\<open>png-chunks-encode\<close>), which convert between bytes and
  chunk sequences, are parameters of the model.
\<close>

type_synonym 'b fs = "string \<rightharpoonup> 'b"

definition readFile :: "'b fs \<Rightarrow> string \<Rightarrow> error + 'b" where
  "readFile files p = (case files p of None \<Rightarrow> Inl IOError | Some b \<Rightarrow> Inr b)"

definition writeFile :: "'b fs \<Rightarrow> string \<Rightarrow> 'b \<Rightarrow> 'b fs" where
  "writeFile files p b = files(p \<mapsto> b)"

record 'b png_lib =
  pngChunksExtract :: "'b \<Rightarrow> error + chunk list"
  pngChunksEncode :: "chunk list \<Rightarrow> 'b"

text \<open>
  What \<^verbatim>\<open>png-chunks-extract\<close> returns when it returns: the first chunk is
  \<^verbatim>\<open>IHDR\<close> (otherwise it raises \<^verbatim>\<open>IHDR header missing\<close>), parsing stops at the first
  \<^verbatim>\<open>IEND\<close> chunk, which is therefore the last and only one (otherwise it raises
  \<^verbatim>\<open>no IEND header was found\<close>), type codes have four characters and data is bytes.
  On such a sequence the encoder and the parser are inverse to each other.
\<close>

definition png_stream :: "chunk list \<Rightarrow> bool" where
  "png_stream cs \<longleftrightarrow>
     cs \<noteq> [] \<and> name (hd cs) = ''IHDR'' \<and> name (last cs) = ''IEND''
     \<and> list_all (\<lambda>c. name c \<noteq> ''IEND'') (butlast cs)
     \<and> list_all (\<lambda>c. length (name c) = 4 \<and> list_all (\<lambda>b. b < 256) (data c)) cs"


text \<open>
  An instance of the interface in which the content of a file is represented by the
  chunk sequence it holds; a sequence that is not a PNG stream does not parse.
\<close>

definition chunkSeqLib :: "(chunk list) png_lib" where
  "chunkSeqLib =
     \<lparr>pngChunksExtract = (\<lambda>b. if png_stream b then Inr b else Inl PngParseError),
      pngChunksEncode = (\<lambda>cs. cs)\<rparr>"

subsection \<open>Server side: embedding into a PNG\<close>

record EmbedOptions =
  imagePath :: string
  opt_note :: js_string
  opt_isEncrypted :: "bool option"
  outputPath :: "string option"

text \<open>
  \<^verbatim>\<open>toLowerCase\<close> on the ASCII letters; the extensions and suffixes the source compares
  with are ASCII.
\<close>

definition lowerChar :: "char \<Rightarrow> char" where
  "lowerChar c =
     (case map_of (zip ''ABCDEFGHIJKLMNOPQRSTUVWXYZ'' ''abcdefghijklmnopqrstuvwxyz'') c of
        Some l \<Rightarrow> l
      | None \<Rightarrow> c)"

definition toLowerCase :: "string \<Rightarrow> string" where
  "toLowerCase s = map lowerChar s"

text \<open>
  \<^verbatim>\<open>s.replace(/\.(e1|e2|...)$/i, repl)\<close>: the pattern is anchored at the end of the
  string, so the first alternative that is a suffix of \<open>s\<close>, letter case ignored, is
  replaced; a string with no such suffix is returned unchanged.
\<close>

fun replaceSuffix :: "string list \<Rightarrow> string \<Rightarrow> string \<Rightarrow> string" where
  "replaceSuffix [] repl s = s"
| "replaceSuffix (e # es) repl s =
     (if length e \<le> length s \<and> toLowerCase (drop (length s - length e) s) = e
      then take (length s - length e) s @ repl
      else replaceSuffix es repl s)"

definition reservedChunkNames :: "string list" where
  "reservedChunkNames = [''mInk'', ''mIne'', ''mInv'']"

text \<open>
  The chunk list transformation of \<^verbatim>\<open>embedNoteInPNG\<close>: the filter, the three calls
  of \<^verbatim>\<open>pngChunkText.encode\<close>, \<^verbatim>\<open>findIndex\<close> and \<^verbatim>\<open>splice\<close>.
\<close>

definition embedChunks :: "chunk list \<Rightarrow> js_string \<Rightarrow> bool \<Rightarrow> error + chunk list" where
  "embedChunks chunks noteText isEncrypted =
     (let filteredChunks = filter (\<lambda>chunk. name chunk \<notin> set reservedChunkNames) chunks in
      case pngChunkText_encode (js ''MemoryInkNote'') noteText of
        Inl e \<Rightarrow> Inl e
      | Inr noteChunk \<Rightarrow>
      (case pngChunkText_encode (js ''MemoryInkEncrypted'')
              (js (if isEncrypted then ''true'' else ''false'')) of
        Inl e \<Rightarrow> Inl e
      | Inr encryptedChunk \<Rightarrow>
      (case pngChunkText_encode (js ''MemoryInkVersion'') (js ''1.0'') of
        Inl e \<Rightarrow> Inl e
      | Inr versionChunk \<Rightarrow>
          (let iendIndex = findIndex (\<lambda>chunk. name chunk = ''IEND'') filteredChunks in
           Inr (splice0 filteredChunks iendIndex [noteChunk, encryptedChunk, versionChunk])))))"

definition outputOf :: "string list \<Rightarrow> string \<Rightarrow> EmbedOptions \<Rightarrow> string" where
  "outputOf exts repl options =
     (case outputPath options of
        Some p \<Rightarrow> if p \<noteq> [] then p else replaceSuffix exts repl (imagePath options)
      | None \<Rightarrow> replaceSuffix exts repl (imagePath options))"

definition flagOf :: "EmbedOptions \<Rightarrow> bool" where
  "flagOf options = (case opt_isEncrypted options of Some b \<Rightarrow> b | None \<Rightarrow> False)"

text \<open>
  \<^verbatim>\<open>embedNoteInPNG\<close> returns the output path or raises; the second component is the
  file system after the call. Any failure inside the \<^verbatim>\<open>try\<close> block is rethrown as
  \<open>EmbedFailed\<close>; the only write is the last statement of the block.
\<close>

definition embedNoteInPNG :: "'b png_lib \<Rightarrow> 'b fs \<Rightarrow> EmbedOptions \<Rightarrow> (error + string) \<times> 'b fs" where
  "embedNoteInPNG L files options =
     (let output = outputOf [''.png''] ''_embedded.png'' options in
      case readFile files (imagePath options) of
        Inl e \<Rightarrow> (Inl EmbedFailed, files)
      | Inr buffer \<Rightarrow>
      (case pngChunksExtract L buffer of
        Inl e \<Rightarrow> (Inl EmbedFailed, files)
      | Inr chunks \<Rightarrow>
      (case embedChunks chunks (opt_note options) (flagOf options) of
        Inl e \<Rightarrow> (Inl EmbedFailed, files)
      | Inr newChunks \<Rightarrow>
          (Inr output, writeFile files output (pngChunksEncode L newChunks)))))"

subsection \<open>Server side: extracting from a PNG\<close>

type_synonym tags = "string \<rightharpoonup> js_string"

record ExtractResult =
  res_note :: "js_string option"
  res_isEncrypted :: bool
  res_metadata :: "tags option"

definition emptyResult :: ExtractResult where
  "emptyResult = \<lparr>res_note = None, res_isEncrypted = False, res_metadata = None\<rparr>"

text \<open>
  The loop of \<^verbatim>\<open>extractNoteFromPNG\<close> over the chunks, with the two variables
  \<^verbatim>\<open>note\<close> and \<^verbatim>\<open>isEncrypted\<close> it assigns. A chunk that \<^verbatim>\<open>pngChunkText.decode\<close>
  refuses ends the loop with the exception.
\<close>

fun scanTextChunks :: "chunk list \<Rightarrow> js_string option \<Rightarrow> bool \<Rightarrow> error + (js_string option \<times> bool)" where
  "scanTextChunks [] noteVar isEnc = Inr (noteVar, isEnc)"
| "scanTextChunks (chunk # rest) noteVar isEnc =
     (if name chunk = ''tEXt'' \<or> name chunk = ''iTXt'' then
        (case pngChunkText_decode (data chunk) of
           Inl e \<Rightarrow> Inl e
         | Inr (keyword, txt) \<Rightarrow>
             if keyword = js ''MemoryInkNote'' then scanTextChunks rest (Some txt) isEnc
             else if keyword = js ''MemoryInkEncrypted'' then scanTextChunks rest noteVar (txt = js ''true'')
             else scanTextChunks rest noteVar isEnc)
      else scanTextChunks rest noteVar isEnc)"

definition extractNoteFromPNG_try :: "'b png_lib \<Rightarrow> 'b fs \<Rightarrow> string \<Rightarrow> error + ExtractResult" where
  "extractNoteFromPNG_try L files path =
     (case readFile files path of
        Inl e \<Rightarrow> Inl e
      | Inr buffer \<Rightarrow>
      (case pngChunksExtract L buffer of
        Inl e \<Rightarrow> Inl e
      | Inr chunks \<Rightarrow>
      (case scanTextChunks chunks None False of
        Inl e \<Rightarrow> Inl e
      | Inr (noteVar, isEnc) \<Rightarrow>
          Inr \<lparr>res_note = noteVar, res_isEncrypted = isEnc, res_metadata = None\<rparr>)))"

text \<open>The \<^verbatim>\<open>catch\<close> clause: every exception becomes the empty result.\<close>

definition extractNoteFromPNG :: "'b png_lib \<Rightarrow> 'b fs \<Rightarrow> string \<Rightarrow> error + ExtractResult" where
  "extractNoteFromPNG L files path =
     (case extractNoteFromPNG_try L files path of
        Inl e \<Rightarrow> Inr emptyResult
      | Inr r \<Rightarrow> Inr r)"

subsection \<open>Server side: JPEG through ExifTool\<close>

text \<open>
  The tag set \<^verbatim>\<open>exiftool.read\<close> returns is a map from tag names to values;
  \<^verbatim>\<open>exiftool.write\<close> rewrites a file with the given tags. Both belong to the package
  \<^verbatim>\<open>exiftool-vendored\<close> and are parameters of the model; both can raise.
\<close>

record 'b exiftool_lib =
  exiftool_read :: "'b \<Rightarrow> error + tags"
  exiftool_write :: "'b \<Rightarrow> (string \<times> js_string) list \<Rightarrow> error + 'b"

definition jpegTags :: "js_string \<Rightarrow> bool \<Rightarrow> (string \<times> js_string) list" where
  "jpegTags noteText isEncrypted =
     [(''ImageDescription'', noteText),
      (''UserComment'', noteText),
      (''XMP:Description'', noteText),
      (''XMP:MemoryInkNote'', noteText),
      (''XMP:MemoryInkEncrypted'', js (if isEncrypted then ''true'' else ''false'')),
      (''XMP:MemoryInkVersion'', js ''1.0'')]"

text \<open>
  \<^verbatim>\<open>embedNoteInJPEG\<close> copies the image to the output path first and then lets ExifTool
  rewrite the copy.
\<close>

definition embedNoteInJPEG :: "'b exiftool_lib \<Rightarrow> 'b fs \<Rightarrow> EmbedOptions \<Rightarrow> (error + string) \<times> 'b fs" where
  "embedNoteInJPEG E files options =
     (let output = outputOf [''.jpg'', ''.jpeg''] ''_embedded.jpg'' options in
      case readFile files (imagePath options) of
        Inl e \<Rightarrow> (Inl EmbedFailed, files)
      | Inr source \<Rightarrow>
          (let copied = writeFile files output source in
           case exiftool_write E source (jpegTags (opt_note options) (flagOf options)) of
             Inl e \<Rightarrow> (Inl EmbedFailed, copied)
           | Inr written \<Rightarrow> (Inr output, writeFile copied output written)))"

definition noteFields :: "string list" where
  "noteFields = [''XMP:MemoryInkNote'', ''ImageDescription'', ''UserComment'', ''XMP:Description'']"

text \<open>
  The loop \<^verbatim>\<open>for (const field of noteFields) if (metadata[field]) { note = ...; break }\<close>.
  A missing tag is \<^verbatim>\<open>undefined\<close> and an empty string is falsy.
\<close>

fun firstTruthy :: "tags \<Rightarrow> string list \<Rightarrow> js_string option" where
  "firstTruthy metadata [] = None"
| "firstTruthy metadata (field # rest) =
     (case metadata field of
        Some v \<Rightarrow> if v \<noteq> [] then Some v else firstTruthy metadata rest
      | None \<Rightarrow> firstTruthy metadata rest)"

definition extractNoteFromJPEG_try :: "'b exiftool_lib \<Rightarrow> 'b fs \<Rightarrow> string \<Rightarrow> error + ExtractResult" where
  "extractNoteFromJPEG_try E files path =
     (case readFile files path of
        Inl e \<Rightarrow> Inl e
      | Inr buffer \<Rightarrow>
      (case exiftool_read E buffer of
        Inl e \<Rightarrow> Inl e
      | Inr metadata \<Rightarrow>
          Inr \<lparr>res_note = firstTruthy metadata noteFields,
               res_isEncrypted = (metadata ''XMP:MemoryInkEncrypted'' = Some (js ''true'')),
               res_metadata = Some metadata\<rparr>))"

definition extractNoteFromJPEG :: "'b exiftool_lib \<Rightarrow> 'b fs \<Rightarrow> string \<Rightarrow> error + ExtractResult" where
  "extractNoteFromJPEG E files path =
     (case extractNoteFromJPEG_try E files path of
        Inl e \<Rightarrow> Inr emptyResult
      | Inr r \<Rightarrow> Inr r)"

subsection \<open>Server side: the format dispatchers\<close>

text \<open>
  \<^verbatim>\<open>path.extname\<close> of Node.js (POSIX): trailing slashes are ignored, the extension is
  taken from the last path segment, from its last dot to its end; a segment without a
  dot, a segment whose only dot is its first character, and the segment \<^verbatim>\<open>..\<close> have
  the empty extension.
\<close>

definition extname :: "string \<Rightarrow> string" where
  "extname p =
     (let trimmed = rev (dropWhile (\<lambda>c. c = CHR ''/'') (rev p));
          base = rev (takeWhile (\<lambda>c. c \<noteq> CHR ''/'') (rev trimmed));
          ext = rev (takeWhile (\<lambda>c. c \<noteq> CHR ''.'') (rev base));
          stem = take (length base - length ext - 1) base
      in if CHR ''.'' \<notin> set base then []
         else if stem = [] then []
         else if base = ''..'' then []
         else CHR ''.'' # ext)"

definition embedNote :: "'b png_lib \<Rightarrow> 'b exiftool_lib \<Rightarrow> 'b fs \<Rightarrow> EmbedOptions \<Rightarrow> (error + string) \<times> 'b fs" where
  "embedNote L E files options =
     (let ext = toLowerCase (extname (imagePath options)) in
      if ext = ''.jpg'' \<or> ext = ''.jpeg'' then embedNoteInJPEG E files options
      else if ext = ''.png'' then embedNoteInPNG L files options
      else (Inl (UnsupportedFormat ext), files))"

definition extractNote :: "'b png_lib \<Rightarrow> 'b exiftool_lib \<Rightarrow> 'b fs \<Rightarrow> string \<Rightarrow> error + ExtractResult" where
  "extractNote L E files path =
     (let ext = toLowerCase (extname path) in
      if ext = ''.jpg'' \<or> ext = ''.jpeg'' then extractNoteFromJPEG E files path
      else if ext = ''.png'' then extractNoteFromPNG L files path
      else Inr emptyResult)"

subsection \<open>Client side: the in-browser codec\<close>

text \<open>
  \<^verbatim>\<open>piexif.load\<close> returns an object with one tag table per IFD (\<^verbatim>\<open>'0th'\<close>,
  \<^verbatim>\<open>'Exif'\<close>, \<^verbatim>\<open>'GPS'\<close>, ...); a tag is addressed as
  \<^verbatim>\<open>exifObj['0th'][piexif.ImageIFD.Artist]\<close>, here by the name of the constant.
  \<^verbatim>\<open>piexif.load\<close>, \<^verbatim>\<open>piexif.dump\<close> and \<^verbatim>\<open>piexif.insert\<close> are parameters; \<open>'u\<close> is the
  type of data URLs and \<open>'d\<close> the type of serialised EXIF segments.
\<close>

type_synonym exif_obj = "string \<Rightarrow> tags"

record ('u, 'd) piexif_lib =
  piexif_load :: "'u \<Rightarrow> error + exif_obj"
  piexif_dump :: "exif_obj \<Rightarrow> error + 'd"
  piexif_insert :: "'d \<Rightarrow> 'u \<Rightarrow> error + 'u"

record 'u ClientEmbedOptions =
  imageDataUrl :: 'u
  c_note :: js_string
  c_isEncrypted :: "bool option"

definition c_flagOf :: "'u ClientEmbedOptions \<Rightarrow> bool" where
  "c_flagOf options = (case c_isEncrypted options of Some b \<Rightarrow> b | None \<Rightarrow> False)"



text \<open>
  The client's \<^verbatim>\<open>extractNoteFromJPEG\<close>: an \<^verbatim>\<open>if\<close>/\<^verbatim>\<open>else if\<close> over two tags of the
  \<^verbatim>\<open>'0th'\<close> IFD, and the flag read from the \<^verbatim>\<open>Artist\<close> tag. The client's result has
  no metadata field.
\<close>

definition truthy :: "js_string option \<Rightarrow> bool" where
  "truthy v = (case v of Some s \<Rightarrow> s \<noteq> [] | None \<Rightarrow> False)"

definition client_pickNote :: "exif_obj \<Rightarrow> js_string option" where
  "client_pickNote exifObj =
     (if truthy (exifObj ''0th'' ''ImageDescription'') then exifObj ''0th'' ''ImageDescription''
      else if truthy (exifObj ''0th'' ''XPComment'') then exifObj ''0th'' ''XPComment''
      else None)"

definition client_extractNoteFromJPEG :: "('u, 'd) piexif_lib \<Rightarrow> 'u \<Rightarrow> error + ExtractResult" where
  "client_extractNoteFromJPEG P url =
     (case piexif_load P url of
        Inl e \<Rightarrow> Inr emptyResult
      | Inr exifObj \<Rightarrow>
          Inr \<lparr>res_note = client_pickNote exifObj,
               res_isEncrypted = (exifObj ''0th'' ''Artist'' = Some (js ''ENCRYPTED'')),
               res_metadata = None\<rparr>)"

text \<open>
  The client's PNG functions run the same statements as the server's on a buffer
  obtained from the data URL (\<^verbatim>\<open>split(',')[1]\<close>, \<^verbatim>\<open>atob\<close>, \<^verbatim>\<open>Uint8Array.from\<close>) and turn
  the result back into a data URL (\<^verbatim>\<open>btoa\<close>); both conversions are parameters.
\<close>

record ('u, 'b) browser =
  dataUrlToBuffer :: "'u \<Rightarrow> error + 'b"
  bufferToDataUrl :: "'b \<Rightarrow> error + 'u"

definition client_embedNoteInPNG ::
  "'b png_lib \<Rightarrow> ('u, 'b) browser \<Rightarrow> 'u ClientEmbedOptions \<Rightarrow> error + 'u" where
  "client_embedNoteInPNG L B options =
     (case dataUrlToBuffer B (imageDataUrl options) of
        Inl e \<Rightarrow> Inl EmbedFailed
      | Inr buffer \<Rightarrow>
      (case pngChunksExtract L buffer of
        Inl e \<Rightarrow> Inl EmbedFailed
      | Inr chunks \<Rightarrow>
      (case embedChunks chunks (c_note options) (c_flagOf options) of
        Inl e \<Rightarrow> Inl EmbedFailed
      | Inr newChunks \<Rightarrow>
      (case bufferToDataUrl B (pngChunksEncode L newChunks) of
        Inl e \<Rightarrow> Inl EmbedFailed
      | Inr url \<Rightarrow> Inr url))))"


subsection \<open>The command line extractor\<close>

record CliMetadata =
  software :: "js_string option"
  artist :: "js_string option"
  dateTime :: "js_string option"

record CliExtractResult =
  cli_note :: "js_string option"
  cli_isEncrypted :: bool
  cli_version :: "js_string option"
  cli_metadata :: "CliMetadata option"

definition cliEmptyResult :: CliExtractResult where
  "cliEmptyResult = \<lparr>cli_note = None, cli_isEncrypted = False, cli_version = None, cli_metadata = None\<rparr>"

definition extractFromJPEG :: "'b exiftool_lib \<Rightarrow> 'b fs \<Rightarrow> string \<Rightarrow> error + CliExtractResult" where
  "extractFromJPEG E files path =
     (case readFile files path of
        Inl e \<Rightarrow> Inr cliEmptyResult
      | Inr buffer \<Rightarrow>
      (case exiftool_read E buffer of
        Inl e \<Rightarrow> Inr cliEmptyResult
      | Inr metadata \<Rightarrow>
          Inr \<lparr>cli_note = firstTruthy metadata
                   [''XMP:MemoryInkNote'', ''ImageDescription'', ''UserComment'', ''XMP:Description''],
               cli_isEncrypted = (metadata ''XMP:MemoryInkEncrypted'' = Some (js ''true'')),
               cli_version = metadata ''XMP:MemoryInkVersion'',
               cli_metadata = Some \<lparr>software = metadata ''Software'', artist = metadata ''Artist'',
                                     dateTime = metadata ''DateTime''\<rparr>\<rparr>))"



subsection \<open>The note cipher\<close>

text \<open>
  The primitives of Node's \<^verbatim>\<open>crypto\<close> module are parameters. \<open>pbkdf2Sync\<close> takes the
  password, the salt, the iteration count, the key length in bytes and the digest name.
  \<open>createCipher\<close> stands for the cipher object that
  \<^verbatim>\<open>crypto.createCipher(algorithm, password)\<close> returns, run to its end:
  \<^verbatim>\<open>setAAD(aad)\<close>, \<^verbatim>\<open>update(text, 'utf8', 'base64') + final('base64')\<close> and
  \<^verbatim>\<open>getAuthTag()\<close>; its arguments are the two arguments of \<^verbatim>\<open>createCipher\<close>, the
  associated data and the text, its result the ciphertext and the tag.
  \<^verbatim>\<open>crypto.randomBytes\<close> reads from a stream of random bytes, which the functions take
  and return.
\<close>

record crypto_lib =
  pbkdf2Sync :: "js_string \<Rightarrow> bytes \<Rightarrow> nat \<Rightarrow> nat \<Rightarrow> string \<Rightarrow> bytes"
  createCipher :: "string \<Rightarrow> bytes \<Rightarrow> bytes \<Rightarrow> js_string \<Rightarrow> js_string \<times> bytes"
  toBase64 :: "bytes \<Rightarrow> js_string"

definition randomBytes :: "nat \<Rightarrow> nat stream \<Rightarrow> bytes \<times> nat stream" where
  "randomBytes n rnd = (stake n rnd, sdrop n rnd)"

record EncryptionResult =
  encryptedData :: js_string
  salt :: js_string
  iv :: js_string
  authTag :: js_string

definition deriveKey :: "crypto_lib \<Rightarrow> js_string \<Rightarrow> bytes \<Rightarrow> bytes" where
  "deriveKey C password saltBytes = pbkdf2Sync C password saltBytes 100000 32 ''sha256''"

definition encryptNote :: "crypto_lib \<Rightarrow> nat stream \<Rightarrow> js_string \<Rightarrow> js_string \<Rightarrow> EncryptionResult \<times> nat stream" where
  "encryptNote C rnd txt password =
     (let (saltBytes, rnd1) = randomBytes 32 rnd;
          (ivBytes, rnd2) = randomBytes 16 rnd1;
          key = deriveKey C password saltBytes;
          (encrypted, tag) = createCipher C ''aes-256-gcm'' key (js ''memoryink-note'') txt
      in (\<lparr>encryptedData = encrypted,
           salt = toBase64 C saltBytes,
           iv = toBase64 C ivBytes,
           authTag = toBase64 C tag\<rparr>, rnd2))"

text \<open>
  The client's cipher uses the package \<^verbatim>\<open>crypto-js\<close>: \<open>cjs_PBKDF2\<close> takes the
  password, the salt, the key size in 32-bit words and the iteration count;
  \<open>cjs_toHex\<close> is \<^verbatim>\<open>WordArray.toString()\<close>; \<open>cjs_AES_encrypt\<close> takes the text, the
  key string, the initialisation vector (a hex string, parsed), the mode and the padding
  and returns the string form of the cipher text.
\<close>

record cryptojs_lib =
  cjs_PBKDF2 :: "js_string \<Rightarrow> js_string \<Rightarrow> nat \<Rightarrow> nat \<Rightarrow> bytes"
  cjs_toHex :: "bytes \<Rightarrow> js_string"
  cjs_AES_encrypt :: "js_string \<Rightarrow> js_string \<Rightarrow> js_string \<Rightarrow> string \<Rightarrow> string \<Rightarrow> js_string"

record ClientEncryptionResult =
  c_encryptedData :: js_string
  c_salt :: js_string
  c_iv :: js_string

definition client_deriveKey :: "cryptojs_lib \<Rightarrow> js_string \<Rightarrow> js_string \<Rightarrow> js_string" where
  "client_deriveKey J password saltHex =
     cjs_toHex J (cjs_PBKDF2 J password saltHex (256 div 32) 100000)"

definition client_encryptNote ::
  "cryptojs_lib \<Rightarrow> nat stream \<Rightarrow> js_string \<Rightarrow> js_string \<Rightarrow> ClientEncryptionResult \<times> nat stream" where
  "client_encryptNote J rnd txt password =
     (let (saltBytes, rnd1) = randomBytes (256 div 8) rnd;
          saltHex = cjs_toHex J saltBytes;
          (ivBytes, rnd2) = randomBytes (128 div 8) rnd1;
          ivHex = cjs_toHex J ivBytes;
          key = client_deriveKey J password saltHex;
          encrypted = cjs_AES_encrypt J txt key ivHex ''CBC'' ''Pkcs7''
      in (\<lparr>c_encryptedData = encrypted, c_salt = saltHex, c_iv = ivHex\<rparr>, rnd2))"

subsection \<open>Vocabulary of the statements\<close>

text \<open>
  A text chunk is a chunk the extractors hand to \<^verbatim>\<open>pngChunkText.decode\<close>. A chunk
  sequence is decodable when the decoder accepts every text chunk in it.
  \<open>textsWithKeyword k cs\<close> lists, in stream order, the texts of the text chunks of
  \<open>cs\<close> whose keyword is \<open>k\<close>. A string is encodable when a \<^verbatim>\<open>tEXt\<close> chunk can hold
  it: non-empty, every code unit between 1 and 255.
\<close>

definition textChunk :: "chunk \<Rightarrow> bool" where
  "textChunk c \<longleftrightarrow> name c = ''tEXt'' \<or> name c = ''iTXt''"

definition textChunksDecodable :: "chunk list \<Rightarrow> bool" where
  "textChunksDecodable cs = list_all (\<lambda>c. textChunk c \<longrightarrow> \<not> isl (pngChunkText_decode (data c))) cs"

definition textsWithKeyword :: "js_string \<Rightarrow> chunk list \<Rightarrow> js_string list" where
  "textsWithKeyword k cs =
     concat (map (\<lambda>c. if textChunk c then
                         (case pngChunkText_decode (data c) of
                            Inr (kw, txt) \<Rightarrow> if kw = k then [txt] else []
                          | Inl e \<Rightarrow> [])
                       else []) cs)"


definition encodable :: "js_string \<Rightarrow> bool" where
  "encodable s \<longleftrightarrow> s \<noteq> [] \<and> list_all (\<lambda>c. 1 \<le> c \<and> c \<le> 255) s"

text \<open>The three chunks an embedding adds, as \<^verbatim>\<open>pngChunkText.encode\<close> builds them.\<close>

definition newChunks :: "js_string \<Rightarrow> bool \<Rightarrow> chunk list" where
  "newChunks s b =
     [\<lparr>name = ''tEXt'', data = js ''MemoryInkNote'' @ [0] @ s\<rparr>,
      \<lparr>name = ''tEXt'', data = js ''MemoryInkEncrypted'' @ [0] @ js (if b then ''true'' else ''false'')\<rparr>,
      \<lparr>name = ''tEXt'', data = js ''MemoryInkVersion'' @ [0] @ js ''1.0''\<rparr>]"

abbreviation (input) keepChunk :: "chunk \<Rightarrow> bool" where
  "keepChunk \<equiv> (\<lambda>chunk. name chunk \<notin> set reservedChunkNames)"

subsection \<open>Example inputs\<close>

text \<open>
  A one pixel greyscale image: header, pixel data, end marker. The second image also
  carries an international text chunk (\<^verbatim>\<open>iTXt\<close>: keyword, a zero byte, compression
  flag, compression method, language tag, translated keyword, text), the third
  holds two notes in \<^verbatim>\<open>tEXt\<close> chunks followed by one in an \<^verbatim>\<open>iTXt\<close> chunk, and
  the fourth holds two notes, each followed by its encrypted flag, all in \<^verbatim>\<open>tEXt\<close>
  chunks.
\<close>

definition tinyPng :: "chunk list" where
  "tinyPng =
     [\<lparr>name = ''IHDR'', data = [0, 0, 0, 1, 0, 0, 0, 1, 8, 0, 0, 0, 0]\<rparr>,
      \<lparr>name = ''IDAT'', data = [120, 156, 99, 96, 0, 0, 0, 2, 0, 1]\<rparr>,
      \<lparr>name = ''IEND'', data = []\<rparr>]"

definition commentedPng :: "chunk list" where
  "commentedPng =
     [\<lparr>name = ''IHDR'', data = [0, 0, 0, 1, 0, 0, 0, 1, 8, 0, 0, 0, 0]\<rparr>,
      \<lparr>name = ''iTXt'', data = js ''Comment'' @ [0, 0, 0, 0, 0] @ js ''hi''\<rparr>,
      \<lparr>name = ''IDAT'', data = [120, 156, 99, 96, 0, 0, 0, 2, 0, 1]\<rparr>,
      \<lparr>name = ''IEND'', data = []\<rparr>]"



text \<open>
  An ExifTool whose calls fail, an instance of the piexif interface in which a data URL
  is represented by the tag tables it carries, and a browser whose data URLs are the
  buffers themselves.
\<close>

definition failingExiftool :: "'b exiftool_lib" where
  "failingExiftool =
     \<lparr>exiftool_read = (\<lambda>b. Inl ExifToolError), exiftool_write = (\<lambda>b t. Inl ExifToolError)\<rparr>"

definition tagTableLib :: "(exif_obj, exif_obj) piexif_lib" where
  "tagTableLib =
     \<lparr>piexif_load = (\<lambda>u. Inr u), piexif_dump = (\<lambda>e. Inr e), piexif_insert = (\<lambda>d u. Inr d)\<rparr>"


text \<open>
  An instance of the ExifTool interface in which a file is represented by its tag set,
  and the tag tables of a photograph that names its author and its copyright holder.
\<close>

definition tagSetExiftool :: "tags exiftool_lib" where
  "tagSetExiftool =
     \<lparr>exiftool_read = (\<lambda>b. Inr b), exiftool_write = (\<lambda>b t. Inr (b ++ map_of t))\<rparr>"


definition commentOnlyTags :: tags where
  "commentOnlyTags = [''XPComment'' \<mapsto> js ''a walk'']"

section \<open>Properties\<close>

subsection \<open>The text chunk codec\<close>

lemma decodeLoop_keyword:
  "0 \<notin> set k \<Longrightarrow> decodeLoop (k @ rest) True acc t = decodeLoop rest True (acc @ k) t"
  by (induction k arbitrary: acc) auto

lemma decodeLoop_text: "0 \<notin> set t \<Longrightarrow> decodeLoop t False kw acc = Inr (kw, acc @ t)"
  by (induction t arbitrary: acc) auto

lemma decode_keyword_text:
  "0 \<notin> set k \<Longrightarrow> 0 \<notin> set t \<Longrightarrow> pngChunkText_decode (k @ [0] @ t) = Inr (k, t)"
  by (simp add: pngChunkText_decode_def decodeLoop_keyword decodeLoop_text)

lemma decode_encode:
  "pngChunkText_encode k t = Inr c \<Longrightarrow> pngChunkText_decode (data c) = Inr (k, t)"
  using decode_keyword_text[of k t]
  by (auto simp: pngChunkText_encode_def split: if_splits)

lemma encodable_iff: "encodable s \<longleftrightarrow> latin1 s \<and> 0 \<notin> set s"
  by (auto simp: encodable_def latin1_def list_all_iff) (metis Suc_leI gr0I)

lemma encodable_no_zero: "encodable s \<Longrightarrow> 0 \<notin> set s"
  by (simp add: encodable_iff)

lemma encode_reserved:
  "encodable s \<Longrightarrow> kw \<in> {''MemoryInkNote'', ''MemoryInkEncrypted'', ''MemoryInkVersion''} \<Longrightarrow>
   pngChunkText_encode (js kw) s = Inr \<lparr>name = ''tEXt'', data = js kw @ [0] @ s\<rparr>"
  by (auto simp: encodable_iff pngChunkText_encode_def js_def latin1_def)

lemma encodable_literals:
  "encodable (js ''true'')" "encodable (js ''false'')" "encodable (js ''1.0'')"
  by (simp_all add: encodable_def js_def)

lemma keyword_no_zero:
  "0 \<notin> set (js ''MemoryInkNote'')" "0 \<notin> set (js ''MemoryInkEncrypted'')"
  "0 \<notin> set (js ''MemoryInkVersion'')"
  by (simp_all add: js_def)

lemma keyword_distinct:
  "js ''MemoryInkEncrypted'' \<noteq> js ''MemoryInkNote''"
  "js ''MemoryInkVersion'' \<noteq> js ''MemoryInkNote''"
  "js ''MemoryInkNote'' \<noteq> js ''MemoryInkEncrypted''"
  "js ''MemoryInkVersion'' \<noteq> js ''MemoryInkEncrypted''"
  "js ''MemoryInkNote'' \<noteq> js ''MemoryInkVersion''"
  "js ''MemoryInkEncrypted'' \<noteq> js ''MemoryInkVersion''"
  by (simp_all add: js_def)


subsection \<open>The extraction loop\<close>



lemma textsWithKeyword_append:
  "textsWithKeyword k (xs @ ys) = textsWithKeyword k xs @ textsWithKeyword k ys"
  by (simp add: textsWithKeyword_def)








text \<open>A text chunk the decoder refuses ends the loop with the exception.\<close>

lemma scanTextChunks_refused:
  "\<not> textChunksDecodable cs \<Longrightarrow> isl (scanTextChunks cs n e)"
proof (induction cs arbitrary: n e)
  case Nil
  then show ?case by (simp add: textChunksDecodable_def)
next
  case (Cons c cs)
  show ?case
  proof (cases "textChunk c \<and> isl (pngChunkText_decode (data c))")
    case True
    then show ?thesis by (auto simp: textChunk_def split: sum.splits)
  next
    case False
    with Cons.prems have "\<not> textChunksDecodable cs"
      by (auto simp: textChunksDecodable_def)
    from Cons.IH[OF this] show ?thesis
      by (auto simp: textChunk_def split: sum.splits)
  qed
qed

subsection \<open>The embedding step on a chunk stream\<close>

lemma findIndexFrom_last:
  "xs \<noteq> [] \<Longrightarrow> list_all (\<lambda>x. \<not> P x) (butlast xs) \<Longrightarrow> P (last xs) \<Longrightarrow>
   findIndexFrom P xs i = i + int (length xs) - 1"
proof (induction xs arbitrary: i)
  case Nil
  then show ?case by simp
next
  case (Cons x xs)
  show ?case
  proof (cases "xs = []")
    case True
    with Cons.prems show ?thesis by simp
  next
    case False
    with Cons.prems have "\<not> P x" "list_all (\<lambda>x. \<not> P x) (butlast xs)" "P (last xs)"
      by simp_all
    with Cons.IH[OF False, of "i + 1"] show ?thesis by simp
  qed
qed

lemma splice0_before_last:
  assumes ne: "xs \<noteq> []"
  shows "splice0 xs (int (length xs) - 1) items = butlast xs @ items @ [last xs]"
proof -
  from ne have n: "nat (int (length xs) - 1) = length xs - 1" by simp
  have t: "take (length xs - Suc 0) xs = butlast xs" by (simp add: butlast_conv_take)
  have d: "drop (length xs - Suc 0) xs = [last xs]"
    using ne by (metis One_nat_def append_butlast_last_id append_eq_conv_conj length_butlast)
  from ne have "0 < length xs" by simp
  then show ?thesis
    by (simp add: splice0_def Let_def n t d min_def)
qed

lemma filter_keeps_last:
  "cs \<noteq> [] \<Longrightarrow> keep (last cs) \<Longrightarrow> filter keep cs = filter keep (butlast cs) @ [last cs]"
  by (metis append_butlast_last_id filter.simps(1) filter.simps(2) filter_append)

text \<open>
  On a PNG stream and an encodable note the embedding step succeeds: the chunks that
  survive the filter keep their order, and the three new chunks stand directly before
  the \<^verbatim>\<open>IEND\<close> chunk.
\<close>

lemma embedChunks_stream:
  assumes cs: "png_stream cs" and s: "encodable s"
  shows "embedChunks cs s b = Inr (filter keepChunk (butlast cs) @ newChunks s b @ [last cs])"
proof -
  let ?F = "filter keepChunk cs"
  from cs have ne: "cs \<noteq> []" and l: "name (last cs) = ''IEND''"
    and bl: "list_all (\<lambda>c. name c \<noteq> ''IEND'') (butlast cs)"
    by (simp_all add: png_stream_def)
  from l have kl: "name (last cs) \<notin> set reservedChunkNames" by (simp add: reservedChunkNames_def)
  have F: "?F = filter keepChunk (butlast cs) @ [last cs]"
    using filter_keeps_last[OF ne, of keepChunk] kl by simp
  have Fne: "?F \<noteq> []" using F by simp
  have bF: "butlast ?F = filter keepChunk (butlast cs)" using F by simp
  have lF: "last ?F = last cs" using F by simp
  have "list_all (\<lambda>c. \<not> name c = ''IEND'') (butlast ?F)"
    using bl unfolding bF by (simp add: list_all_iff)
  then have fi: "findIndex (\<lambda>chunk. name chunk = ''IEND'') ?F = int (length ?F) - 1"
    unfolding findIndex_def using findIndexFrom_last[OF Fne, of "\<lambda>chunk. name chunk = ''IEND''" 0] l lF
    by simp
  have eb: "encodable (js (if b then ''true'' else ''false''))"
    using encodable_literals by simp
  show ?thesis
    unfolding embedChunks_def Let_def newChunks_def
    by (simp add: encode_reserved[OF s] encode_reserved[OF eb] encode_reserved[OF encodable_literals(3)] fi
        splice0_before_last[OF Fne] bF lF del: append.simps)
qed


lemma newChunks_texts:
  assumes "encodable s"
  shows "textsWithKeyword (js ''MemoryInkNote'') (newChunks s b) = [s]"
    and "textsWithKeyword (js ''MemoryInkEncrypted'') (newChunks s b) = [js (if b then ''true'' else ''false'')]"
    and "textsWithKeyword (js ''MemoryInkVersion'') (newChunks s b) = [js ''1.0'']"
  using assms encodable_literals
  by (simp_all add: newChunks_def textsWithKeyword_def textChunk_def decode_keyword_text
      keyword_no_zero encodable_no_zero keyword_distinct del: append.simps)


lemma embedded_stream:
  assumes cs: "png_stream cs" and s: "encodable s"
  shows "png_stream (filter keepChunk (butlast cs) @ newChunks s b @ [last cs])"
proof -
  let ?pre = "filter keepChunk (butlast cs)"
  let ?wf = "\<lambda>c. length (name c) = 4 \<and> list_all (\<lambda>b. b < 256) (data c)"
  from cs have ne: "cs \<noteq> []" and h: "name (hd cs) = ''IHDR''" and l: "name (last cs) = ''IEND''"
    and bl: "list_all (\<lambda>c. name c \<noteq> ''IEND'') (butlast cs)" and wf: "list_all ?wf cs"
    by (simp_all add: png_stream_def)
  obtain x xs where x: "cs = x # xs" using ne by (cases cs) auto
  have xsne: "xs \<noteq> []" using h l x by auto
  have hdpre: "hd (?pre @ newChunks s b @ [last cs]) = x"
    using x xsne h by (simp add: reservedChunkNames_def)
  have wfnew: "list_all ?wf (newChunks s b)"
    using s by (auto simp: newChunks_def encodable_def js_def list_all_iff)
  have wfpre: "list_all ?wf ?pre"
    using wf by (auto simp: list_all_iff dest: in_set_butlastD)
  have wflast: "?wf (last cs)"
    using wf last_in_set[OF ne] by (auto simp: list_all_iff)
  have blpre: "list_all (\<lambda>c. name c \<noteq> ''IEND'') ?pre"
    using bl by (simp add: list_all_iff)
  have blnew: "list_all (\<lambda>c. name c \<noteq> ''IEND'') (newChunks s b)"
    by (simp add: newChunks_def)
  have bl': "butlast (?pre @ newChunks s b @ [last cs]) = ?pre @ newChunks s b"
    by (simp add: butlast_append)
  show ?thesis
    unfolding png_stream_def bl' hdpre
    using h x l wfnew wfpre wflast blpre blnew by simp
qed





subsection \<open>PNG round trip\<close>


lemma tinyPng_stream: "png_stream tinyPng"
  by (simp add: png_stream_def tinyPng_def)





subsection \<open>Several notes in one stream\<close>








subsection \<open>Embedding twice\<close>

text \<open>
  C3 does not hold of the code. The filter of \<^verbatim>\<open>embedNoteInPNG\<close> removes chunks whose
  type code is \<^verbatim>\<open>mInk\<close>, \<^verbatim>\<open>mIne\<close> or \<^verbatim>\<open>mInv\<close>, while the chunks an embedding adds
  have the type code \<^verbatim>\<open>tEXt\<close>; the chunks of an earlier embedding therefore stay.
  After embedding \<^verbatim>\<open>first\<close> and then \<^verbatim>\<open>second\<close> into the one pixel image, the output
  holds two chunks for each of the three keywords.
\<close>

theorem png_embed_twice_duplicates:
  "map_option
     (\<lambda>cs. (textsWithKeyword (js ''MemoryInkNote'') cs,
            textsWithKeyword (js ''MemoryInkEncrypted'') cs,
            textsWithKeyword (js ''MemoryInkVersion'') cs))
     (snd (embedNoteInPNG chunkSeqLib
            (snd (embedNoteInPNG chunkSeqLib [''a.png'' \<mapsto> tinyPng]
                   \<lparr>imagePath = ''a.png'', opt_note = js ''first'', opt_isEncrypted = None,
                    outputPath = Some ''b.png''\<rparr>))
            \<lparr>imagePath = ''b.png'', opt_note = js ''second'', opt_isEncrypted = None,
             outputPath = Some ''c.png''\<rparr>) ''c.png'')
   = Some ([js ''first'', js ''second''], [js ''false'', js ''false''], [js ''1.0'', js ''1.0''])"
proof -
  let ?o1 = "\<lparr>imagePath = ''a.png'', opt_note = js ''first'', opt_isEncrypted = None,
                    outputPath = Some ''b.png''\<rparr>"
  let ?o2 = "\<lparr>imagePath = ''b.png'', opt_note = js ''second'', opt_isEncrypted = None,
             outputPath = Some ''c.png''\<rparr>"
  let ?c1 = "filter keepChunk (butlast tinyPng) @ newChunks (js ''first'') False @ [last tinyPng]"
  let ?c2 = "filter keepChunk (butlast ?c1) @ newChunks (js ''second'') False @ [last ?c1]"
  have e1: "encodable (js ''first'')" by (simp add: encodable_def js_def)
  have e2: "encodable (js ''second'')" by (simp add: encodable_def js_def)
  have s1: "png_stream ?c1" by (rule embedded_stream[OF tinyPng_stream e1])
  have 1: "embedNoteInPNG chunkSeqLib [''a.png'' \<mapsto> tinyPng] ?o1 =
             (Inr ''b.png'', [''a.png'' \<mapsto> tinyPng, ''b.png'' \<mapsto> ?c1])"
    by (simp add: embedNoteInPNG_def readFile_def writeFile_def chunkSeqLib_def tinyPng_stream
        outputOf_def flagOf_def embedChunks_stream[OF tinyPng_stream e1] Let_def)
  have 2: "embedNoteInPNG chunkSeqLib [''a.png'' \<mapsto> tinyPng, ''b.png'' \<mapsto> ?c1] ?o2 =
             (Inr ''c.png'', [''a.png'' \<mapsto> tinyPng, ''b.png'' \<mapsto> ?c1, ''c.png'' \<mapsto> ?c2])"
    using s1
    by (simp add: embedNoteInPNG_def readFile_def writeFile_def chunkSeqLib_def
        outputOf_def flagOf_def embedChunks_stream[OF s1 e2] Let_def)
  have pre: "filter keepChunk (butlast ?c1) = butlast tinyPng @ newChunks (js ''first'') False"
    by (simp add: tinyPng_def newChunks_def reservedChunkNames_def)
  have t0: "textsWithKeyword k (butlast tinyPng) = []" "textsWithKeyword k [last tinyPng] = []" for k
    by (simp_all add: tinyPng_def textsWithKeyword_def textChunk_def)
  have l: "last ?c1 = last tinyPng" by simp
  show ?thesis
    unfolding 1 2 snd_conv
    by (simp add: pre l textsWithKeyword_append newChunks_texts[OF e1] newChunks_texts[OF e2] t0
        del: last_appendR last.simps butlast.simps butlast_append)
qed


subsection \<open>Extraction never raises\<close>

text \<open>
  C6. For every file system, path and library behaviour, \<^verbatim>\<open>extractNoteFromPNG\<close> and
  \<^verbatim>\<open>extractNoteFromJPEG\<close> return a result and never an exception; whenever a step
  inside the \<^verbatim>\<open>try\<close> block raises (the file cannot be read, the data does not parse,
  ExifTool fails, or a text chunk is refused by the decoder) the result is
  \<^verbatim>\<open>{ note: null, isEncrypted: false }\<close>.
\<close>

theorem extract_never_raises:
  "\<not> isl (extractNoteFromPNG L files path)
   \<and> \<not> isl (extractNoteFromJPEG E files path)
   \<and> (isl (extractNoteFromPNG_try L files path) \<longrightarrow>
        extractNoteFromPNG L files path = Inr emptyResult)
   \<and> (isl (extractNoteFromJPEG_try E files path) \<longrightarrow>
        extractNoteFromJPEG E files path = Inr emptyResult)
   \<and> (isl (readFile files path) \<longrightarrow>
        isl (extractNoteFromPNG_try L files path) \<and> isl (extractNoteFromJPEG_try E files path))
   \<and> (\<forall>buffer. readFile files path = Inr buffer \<and> isl (pngChunksExtract L buffer) \<longrightarrow>
        isl (extractNoteFromPNG_try L files path))
   \<and> (\<forall>buffer chunks. readFile files path = Inr buffer \<and> pngChunksExtract L buffer = Inr chunks
        \<and> \<not> textChunksDecodable chunks \<longrightarrow> isl (extractNoteFromPNG_try L files path))
   \<and> (\<forall>buffer. readFile files path = Inr buffer \<and> isl (exiftool_read E buffer) \<longrightarrow>
        isl (extractNoteFromJPEG_try E files path))"
proof -
  have 1: "\<not> isl (extractNoteFromPNG L files path)"
    by (simp add: extractNoteFromPNG_def split: sum.splits)
  have 2: "\<not> isl (extractNoteFromJPEG E files path)"
    by (simp add: extractNoteFromJPEG_def split: sum.splits)
  have 3: "isl (extractNoteFromPNG_try L files path) \<longrightarrow>
        extractNoteFromPNG L files path = Inr emptyResult"
    by (auto simp: extractNoteFromPNG_def split: sum.splits)
  have 4: "isl (extractNoteFromJPEG_try E files path) \<longrightarrow>
        extractNoteFromJPEG E files path = Inr emptyResult"
    by (auto simp: extractNoteFromJPEG_def split: sum.splits)
  have 5: "isl (readFile files path) \<longrightarrow>
        isl (extractNoteFromPNG_try L files path) \<and> isl (extractNoteFromJPEG_try E files path)"
    by (auto simp: extractNoteFromPNG_try_def extractNoteFromJPEG_try_def split: sum.splits)
  have 6: "\<forall>buffer. readFile files path = Inr buffer \<and> isl (pngChunksExtract L buffer) \<longrightarrow>
        isl (extractNoteFromPNG_try L files path)"
    by (auto simp: extractNoteFromPNG_try_def split: sum.splits)
  have 7: "\<forall>buffer chunks. readFile files path = Inr buffer \<and> pngChunksExtract L buffer = Inr chunks
        \<and> \<not> textChunksDecodable chunks \<longrightarrow> isl (extractNoteFromPNG_try L files path)"
  proof (intro allI impI)
    fix buffer chunks
    assume a: "readFile files path = Inr buffer \<and> pngChunksExtract L buffer = Inr chunks
        \<and> \<not> textChunksDecodable chunks"
    then have "isl (scanTextChunks chunks None False)"
      using scanTextChunks_refused by blast
    with a show "isl (extractNoteFromPNG_try L files path)"
      by (auto simp: extractNoteFromPNG_try_def split: sum.splits)
  qed
  have 8: "\<forall>buffer. readFile files path = Inr buffer \<and> isl (exiftool_read E buffer) \<longrightarrow>
        isl (extractNoteFromJPEG_try E files path)"
    by (auto simp: extractNoteFromJPEG_try_def split: sum.splits)
  from 1 2 3 4 5 6 7 8 show ?thesis by blast
qed

text \<open>
  The witness reads a file that is not a PNG stream (a lone \<^verbatim>\<open>IDAT\<close> chunk) through
  the PNG extractor and through an ExifTool that fails, a PNG with a refused text
  chunk, and a path with no file.
\<close>

theorem extract_never_raises_witness:
  "isl (extractNoteFromPNG_try chunkSeqLib [''x.png'' \<mapsto> [\<lparr>name = ''IDAT'', data = [1, 2, 3]\<rparr>]] ''x.png'')
   \<and> extractNoteFromPNG chunkSeqLib [''x.png'' \<mapsto> [\<lparr>name = ''IDAT'', data = [1, 2, 3]\<rparr>]] ''x.png''
        = Inr emptyResult
   \<and> isl (extractNoteFromJPEG_try failingExiftool [''x.png'' \<mapsto> [\<lparr>name = ''IDAT'', data = [1, 2, 3]\<rparr>]] ''x.png'')
   \<and> extractNoteFromJPEG failingExiftool [''x.png'' \<mapsto> [\<lparr>name = ''IDAT'', data = [1, 2, 3]\<rparr>]] ''x.png''
        = Inr emptyResult
   \<and> \<not> textChunksDecodable commentedPng
   \<and> extractNoteFromPNG chunkSeqLib [''c.png'' \<mapsto> commentedPng] ''c.png'' = Inr emptyResult
   \<and> isl (readFile (Map.empty :: chunk list fs) ''missing.png'')
   \<and> extractNoteFromPNG chunkSeqLib Map.empty ''missing.png'' = Inr emptyResult
   \<and> extractNoteFromJPEG failingExiftool (Map.empty :: chunk list fs) ''missing.png'' = Inr emptyResult"
proof -
  let ?bad = "[''x.png'' \<mapsto> [\<lparr>name = ''IDAT'', data = [1, 2, 3]\<rparr>]]"
  have p: "isl (extractNoteFromPNG_try chunkSeqLib ?bad ''x.png'')"
    by (simp add: extractNoteFromPNG_try_def readFile_def chunkSeqLib_def png_stream_def)
  have j: "isl (extractNoteFromJPEG_try failingExiftool ?bad ''x.png'')"
    by (simp add: extractNoteFromJPEG_try_def readFile_def failingExiftool_def)
  have st: "png_stream commentedPng"
    by (simp add: png_stream_def commentedPng_def js_def)
  have nd: "\<not> textChunksDecodable commentedPng"
    by (simp add: textChunksDecodable_def commentedPng_def textChunk_def pngChunkText_decode_def js_def)
  have rc: "readFile [''c.png'' \<mapsto> commentedPng] ''c.png'' = Inr commentedPng
            \<and> pngChunksExtract chunkSeqLib commentedPng = Inr commentedPng
            \<and> \<not> textChunksDecodable commentedPng"
    using st nd by (simp add: readFile_def chunkSeqLib_def)
  have m: "isl (readFile (Map.empty :: chunk list fs) ''missing.png'')"
    by (simp add: readFile_def)
  note a = extract_never_raises[of chunkSeqLib ?bad "''x.png''" failingExiftool]
  note b = extract_never_raises[of chunkSeqLib "[''c.png'' \<mapsto> commentedPng]" "''c.png''" failingExiftool]
  note c = extract_never_raises[of chunkSeqLib "Map.empty" "''missing.png''" failingExiftool]
  from a p j have 1: "extractNoteFromPNG chunkSeqLib ?bad ''x.png'' = Inr emptyResult"
    and 2: "extractNoteFromJPEG failingExiftool ?bad ''x.png'' = Inr emptyResult"
    by blast+
  from b rc have 3: "extractNoteFromPNG chunkSeqLib [''c.png'' \<mapsto> commentedPng] ''c.png'' = Inr emptyResult"
    by blast
  from c m have 4: "extractNoteFromPNG chunkSeqLib Map.empty ''missing.png'' = Inr emptyResult"
    and 5: "extractNoteFromJPEG failingExiftool (Map.empty :: chunk list fs) ''missing.png'' = Inr emptyResult"
    by blast+
  from p j nd m 1 2 3 4 5 show ?thesis by blast
qed


subsection \<open>Unsupported formats\<close>

text \<open>
  C5, as amended. For every file path whose extension, in lower case, is neither
  \<^verbatim>\<open>.jpg\<close>, \<^verbatim>\<open>.jpeg\<close> nor \<^verbatim>\<open>.png\<close>, the embed dispatcher raises the unsupported
  format error and leaves the file system as it was; the extract dispatcher does not
  raise: it returns \<^verbatim>\<open>{ note: null, isEncrypted: false }\<close>.
\<close>

theorem unsupported_format:
  assumes "toLowerCase (extname (imagePath options)) \<notin> {''.jpg'', ''.jpeg'', ''.png''}"
  shows "embedNote L E files options =
           (Inl (UnsupportedFormat (toLowerCase (extname (imagePath options)))), files)
         \<and> extractNote L E files (imagePath options) = Inr emptyResult"
  using assms by (simp add: embedNote_def extractNote_def Let_def)

lemma ext_gif: "toLowerCase (extname ''photos/holiday.GIF'') = ''.gif''"
  by (simp add: extname_def toLowerCase_def lowerChar_def)

theorem unsupported_format_witness:
  "toLowerCase (extname ''photos/holiday.GIF'') \<notin> {''.jpg'', ''.jpeg'', ''.png''}
   \<and> embedNote chunkSeqLib failingExiftool [''photos/holiday.GIF'' \<mapsto> tinyPng]
         \<lparr>imagePath = ''photos/holiday.GIF'', opt_note = js ''hi'', opt_isEncrypted = None,
          outputPath = None\<rparr>
       = (Inl (UnsupportedFormat ''.gif''), [''photos/holiday.GIF'' \<mapsto> tinyPng])
   \<and> extractNote chunkSeqLib failingExiftool [''photos/holiday.GIF'' \<mapsto> tinyPng]
         ''photos/holiday.GIF'' = Inr emptyResult"
proof -
  have h: "toLowerCase (extname (imagePath \<lparr>imagePath = ''photos/holiday.GIF'', opt_note = js ''hi'',
             opt_isEncrypted = None, outputPath = None\<rparr>)) \<notin> {''.jpg'', ''.jpeg'', ''.png''}"
    by (simp add: ext_gif)
  show ?thesis
    using unsupported_format[OF h, of chunkSeqLib failingExiftool "[''photos/holiday.GIF'' \<mapsto> tinyPng]"]
    by (simp add: ext_gif)
qed

text \<open>
  C5 as stated fails for the extract dispatcher: on a \<^verbatim>\<open>.gif\<close> and on a \<^verbatim>\<open>.bmp\<close>
  path it returns the empty result, not the unsupported format error.
\<close>

theorem unsupported_format_counterexample:
  "extractNote chunkSeqLib failingExiftool Map.empty ''photo.gif'' = Inr emptyResult
   \<and> extractNote chunkSeqLib failingExiftool Map.empty ''scan.bmp'' = Inr emptyResult
   \<and> extractNote chunkSeqLib failingExiftool Map.empty ''photo.gif'' \<noteq> Inl (UnsupportedFormat ''.gif'')"
  by (simp add: extractNote_def extname_def toLowerCase_def lowerChar_def Let_def)

subsection \<open>The order of the JPEG fields\<close>

lemma firstTruthy_find:
  "firstTruthy metadata names =
     (case find (\<lambda>field. truthy (metadata field)) names of
        None \<Rightarrow> None
      | Some field \<Rightarrow> metadata field)"
  by (induction names) (auto simp: truthy_def split: option.splits)

lemma client_pickNote_firstTruthy:
  "client_pickNote exifObj = firstTruthy (exifObj ''0th'') [''ImageDescription'', ''XPComment'']"
  by (auto simp: client_pickNote_def truthy_def split: option.splits)

text \<open>
  C7, as amended. The server's JPEG extractor and the command line tool's read the tag
  set in the order \<^verbatim>\<open>XMP:MemoryInkNote\<close>, \<^verbatim>\<open>ImageDescription\<close>, \<^verbatim>\<open>UserComment\<close>,
  \<^verbatim>\<open>XMP:Description\<close> and return the value of the first field of that order that is
  present and non-empty. The client's extractor reads two fields of the first IFD only,
  \<^verbatim>\<open>ImageDescription\<close> and then \<^verbatim>\<open>XPComment\<close>, and returns the first of these that
  is present and non-empty.
\<close>

theorem jpeg_field_priority:
  "(readFile files path = Inr buffer \<and> exiftool_read E buffer = Inr metadata \<longrightarrow>
      (\<exists>r. extractNoteFromJPEG E files path = Inr r
         \<and> res_note r = firstTruthy metadata
             [''XMP:MemoryInkNote'', ''ImageDescription'', ''UserComment'', ''XMP:Description''])
      \<and> (\<exists>r. extractFromJPEG E files path = Inr r
         \<and> cli_note r = firstTruthy metadata
             [''XMP:MemoryInkNote'', ''ImageDescription'', ''UserComment'', ''XMP:Description'']))
   \<and> (piexif_load P url = Inr exifObj \<longrightarrow>
      (\<exists>r. client_extractNoteFromJPEG P url = Inr r
         \<and> res_note r = firstTruthy (exifObj ''0th'') [''ImageDescription'', ''XPComment'']))
   \<and> (\<forall>names. firstTruthy metadata names =
        (case find (\<lambda>field. truthy (metadata field)) names of
           None \<Rightarrow> None
         | Some field \<Rightarrow> metadata field))"
proof -
  have srv: "readFile files path = Inr buffer \<and> exiftool_read E buffer = Inr metadata \<longrightarrow>
      (\<exists>r. extractNoteFromJPEG E files path = Inr r
         \<and> res_note r = firstTruthy metadata
             [''XMP:MemoryInkNote'', ''ImageDescription'', ''UserComment'', ''XMP:Description''])
      \<and> (\<exists>r. extractFromJPEG E files path = Inr r
         \<and> cli_note r = firstTruthy metadata
             [''XMP:MemoryInkNote'', ''ImageDescription'', ''UserComment'', ''XMP:Description''])"
    by (simp add: extractNoteFromJPEG_def extractNoteFromJPEG_try_def extractFromJPEG_def noteFields_def)
  have cl: "piexif_load P url = Inr exifObj \<longrightarrow>
      (\<exists>r. client_extractNoteFromJPEG P url = Inr r
         \<and> res_note r = firstTruthy (exifObj ''0th'') [''ImageDescription'', ''XPComment''])"
    by (simp add: client_extractNoteFromJPEG_def client_pickNote_firstTruthy)
  from srv cl firstTruthy_find show ?thesis by blast
qed

text \<open>
  The witness: a tag set in which the description is empty and the user comment is
  not; the server and the command line tool return the user comment. The client, given
  tag tables with an empty description and a comment, returns the comment.
\<close>

theorem jpeg_field_priority_witness:
  "readFile [''p.jpg'' \<mapsto> [''ImageDescription'' \<mapsto> [], ''UserComment'' \<mapsto> js ''dusk'',
                              ''XMP:Description'' \<mapsto> js ''dawn'']] ''p.jpg''
     = Inr [''ImageDescription'' \<mapsto> [], ''UserComment'' \<mapsto> js ''dusk'', ''XMP:Description'' \<mapsto> js ''dawn'']
   \<and> (\<exists>r. extractNoteFromJPEG tagSetExiftool
             [''p.jpg'' \<mapsto> [''ImageDescription'' \<mapsto> [], ''UserComment'' \<mapsto> js ''dusk'',
                              ''XMP:Description'' \<mapsto> js ''dawn'']] ''p.jpg'' = Inr r
          \<and> res_note r = Some (js ''dusk''))
   \<and> (\<exists>r. extractFromJPEG tagSetExiftool
             [''p.jpg'' \<mapsto> [''ImageDescription'' \<mapsto> [], ''UserComment'' \<mapsto> js ''dusk'',
                              ''XMP:Description'' \<mapsto> js ''dawn'']] ''p.jpg'' = Inr r
          \<and> cli_note r = Some (js ''dusk''))
   \<and> (\<exists>r. client_extractNoteFromJPEG tagTableLib
             ((\<lambda>ifd. Map.empty)(''0th'' := [''ImageDescription'' \<mapsto> [], ''XPComment'' \<mapsto> js ''dusk'']))
             = Inr r
          \<and> res_note r = Some (js ''dusk''))"
proof -
  let ?m = "[''ImageDescription'' \<mapsto> [], ''UserComment'' \<mapsto> js ''dusk'', ''XMP:Description'' \<mapsto> js ''dawn'']"
  let ?e = "(\<lambda>ifd. Map.empty)(''0th'' := [''ImageDescription'' \<mapsto> [], ''XPComment'' \<mapsto> js ''dusk''])"
  have r: "readFile [''p.jpg'' \<mapsto> ?m] ''p.jpg'' = Inr ?m \<and> exiftool_read tagSetExiftool ?m = Inr ?m"
    by (simp add: readFile_def tagSetExiftool_def)
  have l: "piexif_load tagTableLib ?e = Inr ?e"
    by (simp add: tagTableLib_def)
  have d: "js ''dusk'' \<noteq> []" by (simp add: js_def)
  show ?thesis
    using jpeg_field_priority[of "[''p.jpg'' \<mapsto> ?m]" "''p.jpg''" ?m tagSetExiftool ?m tagTableLib ?e ?e] r l d
    by simp
qed

text \<open>
  C7 as stated fails for the client: on tag tables whose only entry is the
  \<^verbatim>\<open>XPComment\<close> field, none of the four fields of the canonical order is present, yet
  the client returns a note; the server's extractor, reading the same tag set, returns
  none.
\<close>

theorem jpeg_field_priority_counterexample:
  "firstTruthy commentOnlyTags noteFields = None
   \<and> client_extractNoteFromJPEG tagTableLib ((\<lambda>ifd. Map.empty)(''0th'' := commentOnlyTags))
       = Inr \<lparr>res_note = Some (js ''a walk''), res_isEncrypted = False, res_metadata = None\<rparr>
   \<and> extractNoteFromJPEG tagSetExiftool [''p.jpg'' \<mapsto> commentOnlyTags] ''p.jpg''
       = Inr \<lparr>res_note = None, res_isEncrypted = False, res_metadata = Some commentOnlyTags\<rparr>"
  by (simp add: commentOnlyTags_def noteFields_def client_extractNoteFromJPEG_def tagTableLib_def
      client_pickNote_def truthy_def extractNoteFromJPEG_def extractNoteFromJPEG_try_def
      readFile_def tagSetExiftool_def js_def)


subsection \<open>What an embedding leaves untouched\<close>







subsection \<open>The note cipher\<close>

text \<open>
  C9. The key derivation of the server is PBKDF2 (\<^verbatim>\<open>pbkdf2Sync\<close>) and that of the
  client is PBKDF2 (\<^verbatim>\<open>CryptoJS.PBKDF2\<close>), each with an iteration count of at least
  100,000 and a key of 256 bits (32 bytes, 8 words of 32 bits); and each
  \<^verbatim>\<open>encryptNote\<close> hands its cipher the key derived by this function from the password
  and from the salt it drew in the same call and returns.
\<close>

theorem key_derivation_parameters:
  "\<exists>iterations keyBytes.
     100000 \<le> iterations \<and> 8 * keyBytes = (256 :: nat)
     \<and> (\<forall>C password saltBytes.
           deriveKey C password saltBytes = pbkdf2Sync C password saltBytes iterations keyBytes ''sha256'')
     \<and> (\<forall>J password saltHex.
           client_deriveKey J password saltHex =
             cjs_toHex J (cjs_PBKDF2 J password saltHex (keyBytes div 4) iterations))
     \<and> (\<forall>C rnd t password.
           encryptedData (fst (encryptNote C rnd t password)) =
             fst (createCipher C ''aes-256-gcm'' (deriveKey C password (fst (randomBytes 32 rnd)))
                    (js ''memoryink-note'') t)
           \<and> salt (fst (encryptNote C rnd t password)) = toBase64 C (fst (randomBytes 32 rnd)))
     \<and> (\<forall>J rnd t password.
           c_encryptedData (fst (client_encryptNote J rnd t password)) =
             cjs_AES_encrypt J t
               (client_deriveKey J password (cjs_toHex J (fst (randomBytes 32 rnd))))
               (c_iv (fst (client_encryptNote J rnd t password))) ''CBC'' ''Pkcs7''
           \<and> c_salt (fst (client_encryptNote J rnd t password)) = cjs_toHex J (fst (randomBytes 32 rnd)))"
proof -
  have srv: "encryptedData (fst (encryptNote C rnd t password)) =
             fst (createCipher C ''aes-256-gcm'' (deriveKey C password (fst (randomBytes 32 rnd)))
                    (js ''memoryink-note'') t)
           \<and> salt (fst (encryptNote C rnd t password)) = toBase64 C (fst (randomBytes 32 rnd))"
    for C rnd t password
    by (simp add: encryptNote_def randomBytes_def Let_def split: prod.splits)
  have cli: "c_encryptedData (fst (client_encryptNote J rnd t password)) =
             cjs_AES_encrypt J t
               (client_deriveKey J password (cjs_toHex J (fst (randomBytes 32 rnd))))
               (c_iv (fst (client_encryptNote J rnd t password))) ''CBC'' ''Pkcs7''
           \<and> c_salt (fst (client_encryptNote J rnd t password)) = cjs_toHex J (fst (randomBytes 32 rnd))"
    for J rnd t password
    by (simp add: client_encryptNote_def randomBytes_def Let_def split: prod.splits)
  have dk: "deriveKey C password saltBytes = pbkdf2Sync C password saltBytes 100000 32 ''sha256''"
    for C password saltBytes
    by (simp add: deriveKey_def)
  have cdk: "client_deriveKey J password saltHex =
          cjs_toHex J (cjs_PBKDF2 J password saltHex (32 div 4) 100000)" for J password saltHex
    by (simp add: client_deriveKey_def)
  show ?thesis
    apply (rule exI[of _ 100000])
    apply (rule exI[of _ 32])
    using srv cli dk cdk by simp
qed

text \<open>
  C4 does not hold of the code. \<^verbatim>\<open>encryptNote\<close> draws 32 bytes of salt and 16 bytes of
  initialisation vector and returns both, but it creates the cipher with
  \<^verbatim>\<open>crypto.createCipher(algorithm, key)\<close>, which takes no initialisation vector: the
  vector it returns is not an input of the cipher. Two calls that draw the same salt
  and different vectors return the same cipher text and the same tag.
\<close>

theorem encryptNote_ignores_iv:
  "salt (fst (encryptNote C (stake 32 s @- r) t password)) = toBase64 C (stake 32 s)
   \<and> iv (fst (encryptNote C (stake 32 s @- r) t password)) = toBase64 C (stake 16 r)
   \<and> encryptedData (fst (encryptNote C (stake 32 s @- r) t password))
       = encryptedData (fst (encryptNote C (stake 32 s @- r') t password))
   \<and> authTag (fst (encryptNote C (stake 32 s @- r) t password))
       = authTag (fst (encryptNote C (stake 32 s @- r') t password))"
proof -
  have k: "stake 32 (stake 32 s @- x) = stake 32 s" for x :: "nat stream"
    by (simp add: stake_shift)
  have d: "sdrop 32 (stake 32 s @- x) = x" for x :: "nat stream"
    by (simp add: sdrop_shift)
  show ?thesis
    by (simp add: encryptNote_def randomBytes_def Let_def k d split: prod.splits)
qed


end
